theory Spec2Isabelle
  imports Main "HOL-Library.Multiset"
begin

section \<open>Data model\<close>

text \<open>
  The message documents of \<^verbatim>\<open>messageSchema\<close> (models/messageModel.js) and the
  operations of \<^verbatim>\<open>MessageService\<close> (services) and of the route handlers
  \<^verbatim>\<open>addMessage\<close>, \<^verbatim>\<open>getMessages\<close>, \<^verbatim>\<open>deleteMessage\<close>,
  \<^verbatim>\<open>getConversations\<close> (controllers/messageController.js).

  A JavaScript value that is \<^verbatim>\<open>undefined\<close>, \<^verbatim>\<open>null\<close> or \<^verbatim>\<open>""\<close> is falsy. Dates
  are milliseconds, as integers. The database and the file system are explicit state.
  The schema types \<^verbatim>\<open>sender\<close> (and, by default, \<^verbatim>\<open>_id\<close>) as ObjectId and
  \<^verbatim>\<open>users\<close> as an untyped array: a document holds the canonical text of its id and
  of its sender (what \<^verbatim>\<open>toString()\<close> gives) and the participants as the strings they
  were given.
\<close>

type_synonym user_id = string
type_synonym message_id = string
type_synonym date = int

datatype message_type = Text | Image | Mixed

record content =
  msg_text :: "string option"
  msg_image :: "string option"
  msg_type :: message_type

record message_doc =
  msgId :: message_id
  message :: content
  users :: "user_id list"
  sender :: user_id
  time :: date
  createdAt :: date
  updatedAt :: date

text \<open>The file object multer puts in \<^verbatim>\<open>req.file\<close>; only its name is read.\<close>

record upload =
  filename :: string

text \<open>The Messages collection in insertion order, and the files on disk.\<close>

record state =
  collection :: "message_doc list"
  files :: "string set"

datatype 'a result = Failure string nat | Success 'a nat

text \<open>\<^verbatim>\<open>!s\<close> for an optional string.\<close>

definition falsy :: "string option \<Rightarrow> bool" where
  "falsy s = (s = None \<or> s = Some [])"

section \<open>The ObjectId cast\<close>

text \<open>
  The cast of a string to ObjectId belongs to the driver, not to the repository: the
  operations take it as the parameter \<open>objectId\<close>, which gives the canonical text of
  the ObjectId, or nothing when the string is not one. The examples use
  \<open>castObjectId\<close>: 24 hexadecimal digits in either case, or twelve characters taken
  as twelve bytes; the canonical text is the lower-case hexadecimal.
\<close>

definition hex_digit :: "char \<Rightarrow> bool" where
  "hex_digit c = (c \<in> set ''0123456789abcdefABCDEF'')"

definition lower_hex :: "char \<Rightarrow> char" where
  "lower_hex c =
     (if c = CHR ''A'' then CHR ''a'' else if c = CHR ''B'' then CHR ''b''
      else if c = CHR ''C'' then CHR ''c'' else if c = CHR ''D'' then CHR ''d''
      else if c = CHR ''E'' then CHR ''e'' else if c = CHR ''F'' then CHR ''f'' else c)"

definition hex_of_byte :: "char \<Rightarrow> string" where
  "hex_of_byte c =
     [''0123456789abcdef'' ! ((of_char c :: nat) div 16),
      ''0123456789abcdef'' ! ((of_char c :: nat) mod 16)]"

definition castObjectId :: "string \<Rightarrow> string option" where
  "castObjectId s =
     (if length s = 24 \<and> list_all hex_digit s then Some (map lower_hex s)
      else if length s = 12 then Some (concat (map hex_of_byte s))
      else None)"

text \<open>
  What mongoose throws, and the repository's \<^verbatim>\<open>errorHandler\<close> middleware, which
  answers the errors a route handler passes to \<^verbatim>\<open>next\<close>.
\<close>

datatype db_error = ValidationError | CastError

definition errorHandler :: "db_error \<Rightarrow> 'a result" where
  "errorHandler e =
     (case e of
        ValidationError \<Rightarrow> Failure ''Validation error'' 400
      | CastError \<Rightarrow> Failure ''Invalid ID format'' 400)"

section \<open>The store\<close>

text \<open>
  \<^verbatim>\<open>Message.create\<close>: validation casts \<^verbatim>\<open>sender\<close> and fails when it is not an
  ObjectId. The database assigns the id \<open>new_id\<close>. The default of \<^verbatim>\<open>time\<close>
  (\<^verbatim>\<open>Date.now\<close>) reads the clock when the document is built, \<open>built\<close>; the
  \<^verbatim>\<open>timestamps\<close> option reads it when the document is saved, \<open>saved\<close>, for
  \<^verbatim>\<open>createdAt\<close> and \<^verbatim>\<open>updatedAt\<close>.
\<close>

definition Message_create ::
  "(string \<Rightarrow> string option) \<Rightarrow> state \<Rightarrow> message_id \<Rightarrow> date \<Rightarrow> date \<Rightarrow> content \<Rightarrow>
     user_id list \<Rightarrow> user_id \<Rightarrow> db_error + message_doc \<times> state" where
  "Message_create objectId st new_id built saved c us s =
     (case objectId s of
        None \<Rightarrow> Inl ValidationError
      | Some oid \<Rightarrow>
          let doc = \<lparr>msgId = new_id, message = c, users = us, sender = oid,
                     time = built, createdAt = saved, updatedAt = saved\<rparr>
          in Inr (doc, st\<lparr>collection := collection st @ [doc]\<rparr>))"

text \<open>
  \<^verbatim>\<open>Message.find({users: {$all: [a, b]}}).sort({updatedAt: 1})\<close>, the sort taken
  as stable on the insertion order.
\<close>

definition Message_find_sorted :: "state \<Rightarrow> user_id \<Rightarrow> user_id \<Rightarrow> message_doc list" where
  "Message_find_sorted st a b =
     sort_key updatedAt (filter (\<lambda>m. a \<in> set (users m) \<and> b \<in> set (users m)) (collection st))"

text \<open>\<^verbatim>\<open>Message.findById\<close> casts the id it is given and throws when that fails.\<close>

definition Message_findById ::
  "(string \<Rightarrow> string option) \<Rightarrow> state \<Rightarrow> string \<Rightarrow> db_error + message_doc option" where
  "Message_findById objectId st i =
     (case objectId i of
        None \<Rightarrow> Inl CastError
      | Some oid \<Rightarrow> Inr (find (\<lambda>m. msgId m = oid) (collection st)))"

fun delete_by_id :: "message_id \<Rightarrow> message_doc list \<Rightarrow> message_doc list" where
  "delete_by_id i [] = []"
| "delete_by_id i (m # ms) = (if msgId m = i then ms else m # delete_by_id i ms)"

definition Message_findByIdAndDelete ::
  "(string \<Rightarrow> string option) \<Rightarrow> state \<Rightarrow> string \<Rightarrow> db_error + state" where
  "Message_findByIdAndDelete objectId st i =
     (case objectId i of
        None \<Rightarrow> Inl CastError
      | Some oid \<Rightarrow> Inr (st\<lparr>collection := delete_by_id oid (collection st)\<rparr>))"

text \<open>
  \<^verbatim>\<open>path.join(__dirname, '..', image)\<close>: the stored reference \<^verbatim>\<open>/uploads/<name>\<close>
  below the server directory \<open>root\<close>.
\<close>

definition imagePath :: "string \<Rightarrow> string \<Rightarrow> string" where
  "imagePath root img = root @ img"

section \<open>MessageService\<close>

text \<open>Each method catches what the database throws and answers 500.\<close>

definition createMessage ::
  "(string \<Rightarrow> string option) \<Rightarrow> state \<Rightarrow> message_id \<Rightarrow> date \<Rightarrow> date \<Rightarrow> user_id \<Rightarrow> user_id \<Rightarrow>
     string option \<Rightarrow> upload option \<Rightarrow> message_doc result \<times> state" where
  "createMessage objectId st new_id built saved senderId to_id txt imageFile =
     (if senderId = [] \<or> to_id = [] then
        (Failure ''Sender and recipient IDs are required'' 400, st)
      else if falsy txt \<and> imageFile = None then
        (Failure ''Message text or image is required'' 400, st)
      else
        let messageContent =
              (case (imageFile, falsy txt) of
                 (Some f, False) \<Rightarrow>
                   \<lparr>msg_text = txt, msg_image = Some (''/uploads/'' @ filename f), msg_type = Mixed\<rparr>
               | (Some f, True) \<Rightarrow>
                   \<lparr>msg_text = None, msg_image = Some (''/uploads/'' @ filename f), msg_type = Image\<rparr>
               | (None, _) \<Rightarrow>
                   \<lparr>msg_text = txt, msg_image = None, msg_type = Text\<rparr>)
        in case Message_create objectId st new_id built saved messageContent [senderId, to_id] senderId of
             Inl e \<Rightarrow> (Failure ''Failed to create message'' 500, st)
           | Inr (newMessage, st') \<Rightarrow> (Success newMessage 201, st'))"

record projected =
  fromSelf :: bool
  p_message :: content
  p_time :: date
  p_id :: message_id

definition getMessages ::
  "state \<Rightarrow> user_id \<Rightarrow> user_id \<Rightarrow> (projected list \<times> nat) result \<times> state" where
  "getMessages st currentUserId otherUserId =
     (if currentUserId = [] \<or> otherUserId = [] then
        (Failure ''Both user IDs are required'' 400, st)
      else
        let messages = Message_find_sorted st currentUserId otherUserId;
            projectedMessages =
              map (\<lambda>msg. \<lparr>fromSelf = (sender msg = currentUserId), p_message = message msg,
                           p_time = time msg, p_id = msgId msg\<rparr>) messages
        in (Success (projectedMessages, length projectedMessages) 200, st))"

definition deleteMessage ::
  "(string \<Rightarrow> string option) \<Rightarrow> string \<Rightarrow> state \<Rightarrow> string \<Rightarrow> user_id \<Rightarrow> string result \<times> state" where
  "deleteMessage objectId root st messageId userId =
     (if messageId = [] \<or> userId = [] then
        (Failure ''Message ID and user ID are required'' 400, st)
      else
        case Message_findById objectId st messageId of
          Inl e \<Rightarrow> (Failure ''Failed to delete message'' 500, st)
        | Inr None \<Rightarrow> (Failure ''Message not found'' 404, st)
        | Inr (Some msg) \<Rightarrow>
            if sender msg \<noteq> userId then
              (Failure ''You can only delete your own messages'' 403, st)
            else
              let st1 = (case msg_image (message msg) of
                           None \<Rightarrow> st
                         | Some img \<Rightarrow>
                             if img = [] then st
                             else if imagePath root img \<in> files st
                               then st\<lparr>files := files st - {imagePath root img}\<rparr>
                               else st)
              in case Message_findByIdAndDelete objectId st1 messageId of
                   Inl e \<Rightarrow> (Failure ''Failed to delete message'' 500, st1)
                 | Inr st2 \<Rightarrow> (Success ''Message deleted successfully'' 200, st2))"

section \<open>The conversation aggregation\<close>

text \<open>
  The values an aggregation expression works on, and one step of a field path below a
  value, as the database evaluates it: below a document the field of that name; below an
  array the array of what the step gives below each element that is a document, the other
  elements being skipped; below a string nothing. A numeric component such as \<^verbatim>\<open>0\<close>
  is a field name like any other.
\<close>

datatype bson = BString string | BArray "bson list" | BDocument "(string \<times> bson) list"

fun field_of :: "string \<Rightarrow> bson \<Rightarrow> bson option" where
  "field_of f (BDocument kvs) = map_of kvs f"
| "field_of f (BArray xs) =
     Some (BArray (List.map_filter
       (\<lambda>x. case x of BDocument kvs \<Rightarrow> map_of kvs f | _ \<Rightarrow> None) xs))"
| "field_of f (BString s) = None"

record conversation =
  conv_id :: "bson option"
  lastMessage :: "string option"
  lastMessageTime :: date
  messageCount :: nat

text \<open>
  The \<^verbatim>\<open>_id\<close> expression of the \<^verbatim>\<open>$group\<close> stage:
  \<^verbatim>\<open>$cond: [{$eq: ["$users.0", userId]}, "$users.1", "$users.0"]\<close>, on the
  \<^verbatim>\<open>users\<close> array of strings.
\<close>

definition group_key :: "user_id \<Rightarrow> message_doc \<Rightarrow> bson option" where
  "group_key userId m =
     (let users_0 = field_of ''0'' (BArray (map BString (users m)));
          users_1 = field_of ''1'' (BArray (map BString (users m)))
      in if users_0 = Some (BString userId) then users_1 else users_0)"

text \<open>
  The camera emoji U+1F4F7 of the service's pipeline, as its UTF-8 bytes, and the bytes
  the controller's file holds in its place.
\<close>

definition camera :: string where
  "camera = [CHR 0xF0, CHR 0x9F, CHR 0x93, CHR 0xB7]"

definition camera_controller :: string where
  "camera_controller =
     [CHR 0xC3, CHR 0xB0, CHR 0xC5, CHR 0xB8, CHR 0xE2, CHR 0x80, CHR 0x9C, CHR 0xC2, CHR 0xB7]"

text \<open>
  The \<^verbatim>\<open>lastMessage\<close> expression: \<^verbatim>\<open>$concat\<close> of an absent text is absent.
\<close>

definition last_message_expr :: "string \<Rightarrow> message_doc \<Rightarrow> string option" where
  "last_message_expr glyph m =
     (if msg_type (message m) = Text then msg_text (message m)
      else if msg_type (message m) = Image then Some (glyph @ '' Image'')
      else map_option (\<lambda>t. t @ '' '' @ glyph) (msg_text (message m)))"

definition match_stage :: "user_id \<Rightarrow> message_doc list \<Rightarrow> message_doc list" where
  "match_stage userId docs = filter (\<lambda>m. userId \<in> set (users m)) docs"

text \<open>\<^verbatim>\<open>$sort: {time: -1}\<close>, stable on the incoming order.\<close>

definition sort_stage :: "message_doc list \<Rightarrow> message_doc list" where
  "sort_stage docs = sort_key (\<lambda>m. - time m) docs"

text \<open>
  \<^verbatim>\<open>$group\<close>: one output document per distinct key; \<^verbatim>\<open>$first\<close> reads the first
  document of the group in the incoming order and \<^verbatim>\<open>$sum: 1\<close> counts the group.
\<close>

definition group_stage :: "string \<Rightarrow> user_id \<Rightarrow> message_doc list \<Rightarrow> conversation list" where
  "group_stage glyph userId docs =
     concat (map (\<lambda>k. case filter (\<lambda>m. group_key userId m = k) docs of
                        [] \<Rightarrow> []
                      | d # rest \<Rightarrow>
                          [\<lparr>conv_id = k, lastMessage = last_message_expr glyph d,
                            lastMessageTime = time d, messageCount = Suc (length rest)\<rparr>])
                 (remdups (map (group_key userId) docs)))"

definition Message_aggregate :: "string \<Rightarrow> state \<Rightarrow> user_id \<Rightarrow> conversation list" where
  "Message_aggregate glyph st userId =
     group_stage glyph userId (sort_stage (match_stage userId (collection st)))"

definition getConversations ::
  "state \<Rightarrow> user_id \<Rightarrow> (conversation list \<times> nat) result \<times> state" where
  "getConversations st userId =
     (if userId = [] then (Failure ''User ID is required'' 400, st)
      else
        let conversations = Message_aggregate camera st userId
        in (Success (conversations, length conversations) 200, st))"

section \<open>The route handlers, after the token is verified\<close>

text \<open>
  Each handler first reads the bearer token and answers 401 without one or with one that
  does not verify; what follows is the handler from \<^verbatim>\<open>decoded.userId\<close> on. What the
  database throws goes to \<^verbatim>\<open>next\<close> and so to \<^verbatim>\<open>errorHandler\<close>.
\<close>

record message_view =
  v_id :: message_id
  v_message :: content
  v_sender :: user_id
  v_time :: date

definition addMessage ::
  "(string \<Rightarrow> string option) \<Rightarrow> state \<Rightarrow> message_id \<Rightarrow> date \<Rightarrow> date \<Rightarrow> user_id \<Rightarrow> user_id \<Rightarrow>
     string option \<Rightarrow> upload option \<Rightarrow> message_view result \<times> state" where
  "addMessage objectId st new_id built saved senderId to_id msg imageFile =
     (if to_id = [] then (Failure ''Recipient ID is required'' 400, st)
      else if falsy msg \<and> imageFile = None then
        (Failure ''Message text or image is required'' 400, st)
      else
        let messageData_message =
              (case (imageFile, falsy msg) of
                 (Some f, False) \<Rightarrow>
                   \<lparr>msg_text = msg, msg_image = Some (''/uploads/'' @ filename f), msg_type = Mixed\<rparr>
               | (Some f, True) \<Rightarrow>
                   \<lparr>msg_text = None, msg_image = Some (''/uploads/'' @ filename f), msg_type = Image\<rparr>
               | (None, _) \<Rightarrow>
                   \<lparr>msg_text = msg, msg_image = None, msg_type = Text\<rparr>)
        in case Message_create objectId st new_id built saved messageData_message [senderId, to_id] senderId of
             Inl e \<Rightarrow> (errorHandler e, st)
           | Inr (newMessage, st') \<Rightarrow>
               (Success \<lparr>v_id = msgId newMessage, v_message = message newMessage,
                         v_sender = sender newMessage, v_time = time newMessage\<rparr> 200, st'))"

definition getMessages_handler ::
  "state \<Rightarrow> user_id \<Rightarrow> user_id \<Rightarrow> (projected list \<times> nat) result \<times> state" where
  "getMessages_handler st currentUserId from_id =
     (if from_id = [] then (Failure ''Recipient ID is required'' 400, st)
      else
        let messages = Message_find_sorted st currentUserId from_id;
            projectedMessages =
              map (\<lambda>msg. \<lparr>fromSelf = (sender msg = currentUserId), p_message = message msg,
                           p_time = time msg, p_id = msgId msg\<rparr>) messages
        in (Success (projectedMessages, length projectedMessages) 200, st))"

definition deleteMessage_handler ::
  "(string \<Rightarrow> string option) \<Rightarrow> string \<Rightarrow> state \<Rightarrow> user_id \<Rightarrow> string \<Rightarrow> string result \<times> state" where
  "deleteMessage_handler objectId root st currentUserId messageId =
     (case Message_findById objectId st messageId of
        Inl e \<Rightarrow> (errorHandler e, st)
      | Inr None \<Rightarrow> (Failure ''Message not found'' 404, st)
      | Inr (Some msg) \<Rightarrow>
          if sender msg \<noteq> currentUserId then
            (Failure ''You can only delete your own messages'' 403, st)
          else
            let st1 = (case msg_image (message msg) of
                         None \<Rightarrow> st
                       | Some img \<Rightarrow>
                           if img = [] then st
                           else if imagePath root img \<in> files st
                             then st\<lparr>files := files st - {imagePath root img}\<rparr>
                             else st)
            in case Message_findByIdAndDelete objectId st1 messageId of
                 Inl e \<Rightarrow> (errorHandler e, st1)
               | Inr st2 \<Rightarrow> (Success ''Message deleted successfully'' 200, st2))"

definition getConversations_handler ::
  "state \<Rightarrow> user_id \<Rightarrow> (conversation list \<times> nat) result \<times> state" where
  "getConversations_handler st currentUserId =
     (let conversations = Message_aggregate camera_controller st currentUserId
      in (Success (conversations, length conversations) 200, st))"

section \<open>A scenario\<close>

text \<open>
  Three users and four message ids, as ObjectId text. Three messages between alice and
  bob and then one from carol to alice, sent through the service into an empty store,
  each built one millisecond before it is saved.
\<close>

definition alice :: user_id where "alice = ''aaaaaaaaaaaaaaaaaaaaaaaa''"
definition bob :: user_id where "bob = ''bbbbbbbbbbbbbbbbbbbbbbbb''"
definition carol :: user_id where "carol = ''cccccccccccccccccccccccc''"

definition doc1 :: message_doc where
  "doc1 = \<lparr>msgId = ''000000000000000000000001'',
           message = \<lparr>msg_text = Some ''hi'', msg_image = None, msg_type = Text\<rparr>,
           users = [alice, bob], sender = alice, time = 10, createdAt = 11, updatedAt = 11\<rparr>"

definition doc2 :: message_doc where
  "doc2 = \<lparr>msgId = ''000000000000000000000002'',
           message = \<lparr>msg_text = None, msg_image = Some ''/uploads/p.png'', msg_type = Image\<rparr>,
           users = [bob, alice], sender = bob, time = 20, createdAt = 21, updatedAt = 21\<rparr>"

definition doc3 :: message_doc where
  "doc3 = \<lparr>msgId = ''000000000000000000000003'',
           message = \<lparr>msg_text = Some ''look'', msg_image = Some ''/uploads/q.png'',
                      msg_type = Mixed\<rparr>,
           users = [alice, bob], sender = alice, time = 30, createdAt = 31, updatedAt = 31\<rparr>"

definition doc4 :: message_doc where
  "doc4 = \<lparr>msgId = ''000000000000000000000004'',
           message = \<lparr>msg_text = Some ''yo'', msg_image = None, msg_type = Text\<rparr>,
           users = [carol, alice], sender = carol, time = 40, createdAt = 41, updatedAt = 41\<rparr>"

definition no_messages :: state where
  "no_messages = \<lparr>collection = [], files = {}\<rparr>"

definition after_one :: state where
  "after_one = snd (createMessage castObjectId no_messages ''000000000000000000000001'' 10 11
                      alice bob (Some ''hi'') None)"

definition after_two :: state where
  "after_two = snd (createMessage castObjectId after_one ''000000000000000000000002'' 20 21
                      bob alice None (Some \<lparr>filename = ''p.png''\<rparr>))"

definition after_three :: state where
  "after_three = snd (createMessage castObjectId after_two ''000000000000000000000003'' 30 31
                        alice bob (Some ''look'') (Some \<lparr>filename = ''q.png''\<rparr>))"

definition scenario :: state where
  "scenario = snd (createMessage castObjectId after_three ''000000000000000000000004'' 40 41
                     carol alice (Some ''yo'') None)"

definition scenario_with_files :: state where
  "scenario_with_files = scenario\<lparr>files := {''/srv/uploads/p.png'', ''/srv/uploads/q.png''}\<rparr>"

section \<open>The invariant of the store\<close>

text \<open>
  What holds of every collection the operations build from the empty one: the database
  gives each document its own id, and each document has two participants and the one
  clock reading of its save in \<^verbatim>\<open>createdAt\<close> and \<^verbatim>\<open>updatedAt\<close>.
\<close>

definition well_formed :: "state \<Rightarrow> bool" where
  "well_formed st =
     (distinct (map msgId (collection st)) \<and>
      list_all (\<lambda>m. length (users m) = 2 \<and> updatedAt m = createdAt m) (collection st))"

section \<open>Facts about the store and the pipeline\<close>

lemma cast_users:
  "castObjectId alice = Some alice" "castObjectId bob = Some bob" "castObjectId carol = Some carol"
  by (simp_all add: castObjectId_def alice_def bob_def carol_def hex_digit_def lower_hex_def)

lemma users_differ:
  "alice \<noteq> bob" "bob \<noteq> alice" "alice \<noteq> carol" "carol \<noteq> alice" "bob \<noteq> carol" "carol \<noteq> bob"
  "alice \<noteq> []" "bob \<noteq> []" "carol \<noteq> []"
  by (simp_all add: alice_def bob_def carol_def)

lemma after_one_eq: "after_one = \<lparr>collection = [doc1], files = {}\<rparr>"
  by (simp add: after_one_def no_messages_def createMessage_def Message_create_def falsy_def
      Let_def cast_users users_differ doc1_def)

lemma after_two_eq: "after_two = \<lparr>collection = [doc1, doc2], files = {}\<rparr>"
  by (simp add: after_two_def after_one_eq createMessage_def Message_create_def falsy_def
      Let_def cast_users users_differ doc2_def)

lemma after_three_eq: "after_three = \<lparr>collection = [doc1, doc2, doc3], files = {}\<rparr>"
  by (simp add: after_three_def after_two_eq createMessage_def Message_create_def falsy_def
      Let_def cast_users users_differ doc3_def)

lemma scenario_eq: "scenario = \<lparr>collection = [doc1, doc2, doc3, doc4], files = {}\<rparr>"
  by (simp add: scenario_def after_three_eq createMessage_def Message_create_def falsy_def
      Let_def cast_users users_differ doc4_def)

lemma scenario_with_files_eq:
  "scenario_with_files =
     \<lparr>collection = [doc1, doc2, doc3, doc4],
      files = {''/srv/uploads/p.png'', ''/srv/uploads/q.png''}\<rparr>"
  by (simp add: scenario_with_files_def scenario_eq)

lemma doc_fields:
  "users doc1 = [alice, bob]" "users doc2 = [bob, alice]" "users doc3 = [alice, bob]"
  "users doc4 = [carol, alice]"
  "sender doc1 = alice" "sender doc2 = bob" "sender doc3 = alice" "sender doc4 = carol"
  "time doc1 = 10" "time doc2 = 20" "time doc3 = 30" "time doc4 = 40"
  "createdAt doc1 = 11" "createdAt doc2 = 21" "createdAt doc3 = 31" "createdAt doc4 = 41"
  "updatedAt doc1 = 11" "updatedAt doc2 = 21" "updatedAt doc3 = 31" "updatedAt doc4 = 41"
  "msgId doc1 = ''000000000000000000000001''" "msgId doc2 = ''000000000000000000000002''"
  "msgId doc3 = ''000000000000000000000003''" "msgId doc4 = ''000000000000000000000004''"
  "message doc1 = \<lparr>msg_text = Some ''hi'', msg_image = None, msg_type = Text\<rparr>"
  "message doc2 = \<lparr>msg_text = None, msg_image = Some ''/uploads/p.png'', msg_type = Image\<rparr>"
  "message doc3 = \<lparr>msg_text = Some ''look'', msg_image = Some ''/uploads/q.png'', msg_type = Mixed\<rparr>"
  "message doc4 = \<lparr>msg_text = Some ''yo'', msg_image = None, msg_type = Text\<rparr>"
  by (simp_all add: doc1_def doc2_def doc3_def doc4_def)

lemma group_key_empty_array: "group_key userId m = Some (BArray [])"
proof -
  have "List.map_filter (\<lambda>x. case x of BDocument kvs \<Rightarrow> map_of kvs f | _ \<Rightarrow> None)
          (map BString us) = []" for f us
    by (induction us) (simp_all add: List.map_filter_simps)
  then show ?thesis by (simp add: group_key_def Let_def)
qed

lemma remdups_constant: "remdups (replicate (Suc n) k) = [k]"
  by (induction n) simp_all

lemma group_stage_one_group:
  "group_stage glyph userId docs =
     (case docs of
        [] \<Rightarrow> []
      | d # rest \<Rightarrow>
          [\<lparr>conv_id = Some (BArray []), lastMessage = last_message_expr glyph d,
            lastMessageTime = time d, messageCount = Suc (length rest)\<rparr>])"
proof (cases docs)
  case Nil
  then show ?thesis by (simp add: group_stage_def)
next
  case (Cons d rest)
  have "map (group_key userId) docs = replicate (length docs) (Some (BArray []))"
    by (induction docs) (simp_all add: group_key_empty_array)
  then have "remdups (map (group_key userId) docs) = [Some (BArray [])]"
    using Cons remdups_constant [of "length rest" "Some (BArray [])"] by simp
  then show ?thesis using Cons
    by (simp add: group_stage_def group_key_empty_array)
qed



lemma sort_stage_length: "length (sort_stage docs) = length docs"
  by (simp add: sort_stage_def)

lemma aggregate_one_group:
  "Message_aggregate glyph st userId =
     (case sort_stage (match_stage userId (collection st)) of
        [] \<Rightarrow> []
      | d # rest \<Rightarrow>
          [\<lparr>conv_id = Some (BArray []), lastMessage = last_message_expr glyph d,
            lastMessageTime = time d,
            messageCount = length (match_stage userId (collection st))\<rparr>])"
proof (cases "sort_stage (match_stage userId (collection st))")
  case Nil
  then show ?thesis by (simp add: Message_aggregate_def group_stage_one_group)
next
  case (Cons d rest)
  have "length (match_stage userId (collection st)) = Suc (length rest)"
    using sort_stage_length [of "match_stage userId (collection st)"] Cons by simp
  with Cons show ?thesis by (simp add: Message_aggregate_def group_stage_one_group)
qed


lemma find_sorted_props:
  "mset (Message_find_sorted st a b) =
     mset (filter (\<lambda>m. a \<in> set (users m) \<and> b \<in> set (users m)) (collection st))"
  "sorted (map updatedAt (Message_find_sorted st a b))"
  "set (Message_find_sorted st a b) \<subseteq> set (collection st)"
  by (auto simp add: Message_find_sorted_def)

lemma scenario_found: "Message_find_sorted scenario alice bob = [doc1, doc2, doc3]"
  by (simp add: Message_find_sorted_def scenario_eq doc_fields users_differ)

lemma scenario_history:
  "getMessages scenario alice bob =
     (Success ([\<lparr>fromSelf = True,
                  p_message = \<lparr>msg_text = Some ''hi'', msg_image = None, msg_type = Text\<rparr>,
                  p_time = 10, p_id = ''000000000000000000000001''\<rparr>,
                \<lparr>fromSelf = False,
                  p_message = \<lparr>msg_text = None, msg_image = Some ''/uploads/p.png'', msg_type = Image\<rparr>,
                  p_time = 20, p_id = ''000000000000000000000002''\<rparr>,
                \<lparr>fromSelf = True,
                  p_message = \<lparr>msg_text = Some ''look'', msg_image = Some ''/uploads/q.png'',
                               msg_type = Mixed\<rparr>,
                  p_time = 30, p_id = ''000000000000000000000003''\<rparr>], 3) 200, scenario)"
  by (simp add: getMessages_def scenario_found doc_fields users_differ Let_def)

lemma find_by_id_unique:
  assumes "distinct (map msgId docs)" and "msg \<in> set docs"
  shows "find (\<lambda>m. msgId m = msgId msg) docs = Some msg"
  using assms
proof (induction docs)
  case Nil
  then show ?case by simp
next
  case (Cons d ds)
  show ?case
  proof (cases "d = msg")
    case True
    then show ?thesis by simp
  next
    case False
    with Cons.prems have in_ds: "msg \<in> set ds" by simp
    then have "msgId msg \<in> set (map msgId ds)" by simp
    with Cons.prems(1) have "msgId d \<noteq> msgId msg" by auto
    with Cons in_ds show ?thesis by simp
  qed
qed

lemma delete_by_id_filter:
  assumes "distinct (map msgId docs)"
  shows "delete_by_id i docs = filter (\<lambda>m. msgId m \<noteq> i) docs"
  using assms
proof (induction docs)
  case Nil
  then show ?case by simp
next
  case (Cons d ds)
  show ?case
  proof (cases "msgId d = i")
    case True
    with Cons.prems have "i \<notin> set (map msgId ds)" by simp
    then have "filter (\<lambda>m. msgId m \<noteq> i) ds = ds"
      by (intro filter_True) auto
    with True show ?thesis by simp
  next
    case False
    with Cons show ?thesis by simp
  qed
qed

lemma delete_bad_id:
  assumes "objectId messageId = None"
  shows "deleteMessage_handler objectId root st userId messageId =
           (Failure ''Invalid ID format'' 400, st)"
    and "messageId \<noteq> [] \<Longrightarrow> userId \<noteq> [] \<Longrightarrow>
         deleteMessage objectId root st messageId userId =
           (Failure ''Failed to delete message'' 500, st)"
  using assms
  by (simp_all add: deleteMessage_handler_def deleteMessage_def Message_findById_def
      errorHandler_def)

lemma delete_absent:
  assumes "objectId messageId = Some oid" and "\<forall>m \<in> set (collection st). msgId m \<noteq> oid"
  shows "deleteMessage_handler objectId root st userId messageId =
           (Failure ''Message not found'' 404, st)"
proof -
  have "Message_findById objectId st messageId = Inr None"
    using assms by (simp add: Message_findById_def find_None_iff)
  then show ?thesis by (simp add: deleteMessage_handler_def)
qed

lemma delete_foreign:
  assumes "objectId messageId = Some (msgId msg)"
    and "distinct (map msgId (collection st))" and "msg \<in> set (collection st)"
    and "sender msg \<noteq> userId"
  shows "deleteMessage_handler objectId root st userId messageId =
           (Failure ''You can only delete your own messages'' 403, st)"
proof -
  have "Message_findById objectId st messageId = Inr (Some msg)"
    using find_by_id_unique [OF assms(2,3)] assms(1) by (simp add: Message_findById_def)
  with assms(4) show ?thesis by (simp add: deleteMessage_handler_def)
qed

lemma delete_own:
  assumes "objectId messageId = Some (msgId msg)"
    and "distinct (map msgId (collection st))" and "msg \<in> set (collection st)"
    and "sender msg = userId"
  shows "deleteMessage_handler objectId root st userId messageId =
           (Success ''Message deleted successfully'' 200,
            \<lparr>collection = filter (\<lambda>m. msgId m \<noteq> msgId msg) (collection st),
             files = (case msg_image (message msg) of
                        None \<Rightarrow> files st
                      | Some img \<Rightarrow> if img = [] then files st
                                    else files st - {imagePath root img})\<rparr>)"
proof -
  have f: "Message_findById objectId st messageId = Inr (Some msg)"
    using find_by_id_unique [OF assms(2,3)] assms(1) by (simp add: Message_findById_def)
  show ?thesis
  proof (cases "msg_image (message msg)")
    case None
    with f assms(1,2,4) show ?thesis
      by (simp add: deleteMessage_handler_def Message_findByIdAndDelete_def delete_by_id_filter)
  next
    case (Some img)
    show ?thesis
    proof (cases "img = [] \<or> imagePath root img \<notin> files st")
      case True
      then have "(if img = [] then files st else files st - {imagePath root img}) = files st"
        by auto
      with True Some f assms(1,2,4) show ?thesis
        by (auto simp add: deleteMessage_handler_def Message_findByIdAndDelete_def
            delete_by_id_filter)
    next
      case False
      with Some f assms(1,2,4) show ?thesis
        by (simp add: deleteMessage_handler_def Message_findByIdAndDelete_def delete_by_id_filter)
    qed
  qed
qed

lemma service_delete_is_handler:
  assumes "messageId \<noteq> []" and "userId \<noteq> []" and "objectId messageId = Some oid"
  shows "deleteMessage objectId root st messageId userId =
           deleteMessage_handler objectId root st userId messageId"
  using assms
  by (simp add: deleteMessage_def deleteMessage_handler_def Message_findById_def
      Message_findByIdAndDelete_def Let_def split: option.split)

lemma history_ids:
  assumes "getMessages st a b = (Success (recs, n) c, st')"
  shows "p_id ` set recs \<subseteq> msgId ` set (collection st)"
  using assms
  by (auto simp add: getMessages_def Let_def Message_find_sorted_def split: if_splits)

lemma cast_ids:
  "castObjectId ''000000000000000000000002'' = Some ''000000000000000000000002''"
  "castObjectId ''000000000000000000000003'' = Some ''000000000000000000000003''"
  "castObjectId ''000000000000000000000009'' = Some ''000000000000000000000009''"
  "castObjectId ''m9'' = None" "castObjectId [] = None"
  by (simp_all add: castObjectId_def hex_digit_def lower_hex_def)

lemma scenario_ids:
  "map msgId (collection scenario_with_files) =
     [''000000000000000000000001'', ''000000000000000000000002'',
      ''000000000000000000000003'', ''000000000000000000000004'']"
  by (simp add: scenario_with_files_eq doc_fields)

lemma scenario_delete_own:
  "deleteMessage castObjectId ''/srv'' scenario_with_files ''000000000000000000000003'' alice =
     (Success ''Message deleted successfully'' 200,
      \<lparr>collection = [doc1, doc2, doc4], files = {''/srv/uploads/p.png''}\<rparr>)"
  unfolding scenario_with_files_eq
  by (simp add: deleteMessage_def Message_findById_def Message_findByIdAndDelete_def imagePath_def
      cast_ids doc_fields users_differ insert_Diff_if)

lemma scenario_delete_foreign:
  "deleteMessage castObjectId ''/srv'' scenario_with_files ''000000000000000000000002'' alice =
     (Failure ''You can only delete your own messages'' 403, scenario_with_files)"
  unfolding scenario_with_files_eq
  by (simp add: deleteMessage_def Message_findById_def cast_ids doc_fields users_differ)

lemma scenario_matches:
  "match_stage alice (collection after_two) = [doc1, doc2]"
  "match_stage alice (collection after_three) = [doc1, doc2, doc3]"
  "match_stage alice (collection scenario) = [doc1, doc2, doc3, doc4]"
  by (simp_all add: match_stage_def after_two_eq after_three_eq scenario_eq
      doc_fields users_differ)

lemma scenario_sorts:
  "sort_stage [doc1, doc2] = [doc2, doc1]"
  "sort_stage [doc1, doc2, doc3] = [doc3, doc2, doc1]"
  "sort_stage [doc1, doc2, doc3, doc4] = [doc4, doc3, doc2, doc1]"
  by (simp_all add: sort_stage_def doc_fields)

lemma scenario_aggregates:
  "Message_aggregate glyph after_two alice =
     [\<lparr>conv_id = Some (BArray []), lastMessage = Some (glyph @ '' Image''),
       lastMessageTime = 20, messageCount = 2\<rparr>]"
  "Message_aggregate glyph after_three alice =
     [\<lparr>conv_id = Some (BArray []), lastMessage = Some (''look'' @ '' '' @ glyph),
       lastMessageTime = 30, messageCount = 3\<rparr>]"
  "Message_aggregate glyph scenario alice =
     [\<lparr>conv_id = Some (BArray []), lastMessage = Some ''yo'',
       lastMessageTime = 40, messageCount = 4\<rparr>]"
  by (simp_all add: aggregate_one_group scenario_matches scenario_sorts last_message_expr_def
      doc_fields)

subsection \<open>The invariant is kept\<close>

lemma well_formed_empty: "well_formed no_messages"
  by (simp add: well_formed_def no_messages_def)

lemma well_formed_facts:
  assumes "well_formed st"
  shows "distinct (map msgId (collection st))"
    and "\<forall>m \<in> set (collection st). updatedAt m = createdAt m"
    and "\<forall>m \<in> set (collection st). length (users m) = 2"
  using assms by (simp_all add: well_formed_def list_all_iff)

lemma createMessage_collection:
  "collection (snd (createMessage objectId st new_id built saved senderId to_id txt imageFile)) =
     collection st \<or>
   (\<exists>c oid. collection (snd (createMessage objectId st new_id built saved senderId to_id txt
        imageFile)) =
      collection st @ [\<lparr>msgId = new_id, message = c, users = [senderId, to_id], sender = oid,
                        time = built, createdAt = saved, updatedAt = saved\<rparr>])"
  by (cases "objectId senderId") (simp_all add: createMessage_def Message_create_def Let_def)

lemma addMessage_collection:
  "collection (snd (addMessage objectId st new_id built saved senderId to_id txt imageFile)) =
     collection st \<or>
   (\<exists>c oid. collection (snd (addMessage objectId st new_id built saved senderId to_id txt
        imageFile)) =
      collection st @ [\<lparr>msgId = new_id, message = c, users = [senderId, to_id], sender = oid,
                        time = built, createdAt = saved, updatedAt = saved\<rparr>])"
  by (cases "objectId senderId") (simp_all add: addMessage_def Message_create_def Let_def)

lemma well_formed_append:
  assumes "well_formed st" and "new_id \<notin> msgId ` set (collection st)"
    and "collection st' = collection st \<or>
         (\<exists>c oid. collection st' =
            collection st @ [\<lparr>msgId = new_id, message = c, users = [senderId, to_id],
                              sender = oid, time = built, createdAt = saved, updatedAt = saved\<rparr>])"
  shows "well_formed st'"
  using assms by (auto simp add: well_formed_def)

lemma createMessage_well_formed:
  assumes "well_formed st" and "new_id \<notin> msgId ` set (collection st)"
  shows "well_formed (snd (createMessage objectId st new_id built saved senderId to_id txt imageFile))"
    and "well_formed (snd (addMessage objectId st new_id built saved senderId to_id txt imageFile))"
  using well_formed_append [OF assms createMessage_collection]
    well_formed_append [OF assms addMessage_collection] by simp_all

lemma delete_handler_collection:
  "collection (snd (deleteMessage_handler objectId root st userId messageId)) = collection st \<or>
   (\<exists>oid. collection (snd (deleteMessage_handler objectId root st userId messageId)) =
      delete_by_id oid (collection st))"
  by (cases "objectId messageId")
     (auto simp add: deleteMessage_handler_def Message_findById_def Message_findByIdAndDelete_def
      Let_def split: option.split)

lemma delete_service_collection:
  "collection (snd (deleteMessage objectId root st messageId userId)) = collection st \<or>
   (\<exists>oid. collection (snd (deleteMessage objectId root st messageId userId)) =
      delete_by_id oid (collection st))"
  by (cases "objectId messageId")
     (auto simp add: deleteMessage_def Message_findById_def Message_findByIdAndDelete_def
      Let_def split: option.split)

lemma well_formed_delete:
  assumes "well_formed st"
    and "collection st' = collection st \<or> (\<exists>i. collection st' = delete_by_id i (collection st))"
  shows "well_formed st'"
proof -
  from assms(1) have d: "distinct (map msgId (collection st))" by (simp add: well_formed_def)
  from assms(2) show ?thesis
  proof
    assume "collection st' = collection st"
    with assms(1) show ?thesis by (simp add: well_formed_def)
  next
    assume "\<exists>i. collection st' = delete_by_id i (collection st)"
    then obtain i where "collection st' = delete_by_id i (collection st)" ..
    then have "collection st' = filter (\<lambda>m. msgId m \<noteq> i) (collection st)"
      using delete_by_id_filter [OF d] by simp
    with assms(1) show ?thesis
      by (simp add: well_formed_def distinct_map_filter list_all_iff)
  qed
qed

lemma deleteMessage_well_formed:
  assumes "well_formed st"
  shows "well_formed (snd (deleteMessage objectId root st messageId userId))"
    and "well_formed (snd (deleteMessage_handler objectId root st userId messageId))"
  using well_formed_delete [OF assms delete_service_collection]
    well_formed_delete [OF assms delete_handler_collection] by simp_all

section \<open>Sending\<close>

text \<open>
  C4. A send with both identifiers and some content, whose sender id is the text of an
  ObjectId, succeeds in the service (201) and in the handler (200), and both store the
  same content: with an image file and a non-empty text it is Mixed, holding the text and
  the path \<^verbatim>\<open>/uploads/<filename>\<close>; with an image file and no text it is Image,
  holding the path alone; without an image file it is Text, holding the given text. When
  the sender id is not an ObjectId, validation fails and nothing is created: the service
  answers 500 and the handler, through \<^verbatim>\<open>errorHandler\<close>, 400.
\<close>

theorem send_classifies_content:
  assumes "senderId \<noteq> []" and "to_id \<noteq> []" and "\<not> (falsy txt \<and> imageFile = None)"
  shows "(objectId senderId = None \<longrightarrow>
            createMessage objectId st new_id built saved senderId to_id txt imageFile =
              (Failure ''Failed to create message'' 500, st) \<and>
            addMessage objectId st new_id built saved senderId to_id txt imageFile =
              (Failure ''Validation error'' 400, st)) \<and>
         (\<forall>oid. objectId senderId = Some oid \<longrightarrow>
            (\<exists>m v st1 st2.
               createMessage objectId st new_id built saved senderId to_id txt imageFile =
                 (Success m 201, st1) \<and>
               addMessage objectId st new_id built saved senderId to_id txt imageFile =
                 (Success v 200, st2) \<and>
               v_message v = message m \<and>
               (\<forall>f. imageFile = Some f \<and> \<not> falsy txt \<longrightarrow>
                  message m = \<lparr>msg_text = txt, msg_image = Some (''/uploads/'' @ filename f),
                               msg_type = Mixed\<rparr>) \<and>
               (\<forall>f. imageFile = Some f \<and> falsy txt \<longrightarrow>
                  message m = \<lparr>msg_text = None, msg_image = Some (''/uploads/'' @ filename f),
                               msg_type = Image\<rparr>) \<and>
               (imageFile = None \<longrightarrow>
                  message m = \<lparr>msg_text = txt, msg_image = None, msg_type = Text\<rparr>)))"
  using assms
  by (cases imageFile; cases "falsy txt"; cases "objectId senderId")
     (simp_all add: createMessage_def addMessage_def Message_create_def Let_def errorHandler_def)

theorem send_classifies_content_witness:
  "alice \<noteq> [] \<and> bob \<noteq> [] \<and> \<not> (falsy (Some ''look'') \<and> Some \<lparr>filename = ''q.png''\<rparr> = None) \<and>
   castObjectId alice = Some alice \<and>
   fst (createMessage castObjectId after_two ''000000000000000000000003'' 30 31 alice bob
          (Some ''look'') (Some \<lparr>filename = ''q.png''\<rparr>))
     = Success \<lparr>msgId = ''000000000000000000000003'',
                message = \<lparr>msg_text = Some ''look'', msg_image = Some ''/uploads/q.png'',
                           msg_type = Mixed\<rparr>,
                users = [alice, bob], sender = alice,
                time = 30, createdAt = 31, updatedAt = 31\<rparr> 201"
proof -
  have c: "\<not> (falsy (Some ''look'') \<and> Some \<lparr>filename = ''q.png''\<rparr> = None)"
    by (simp add: falsy_def)
  from send_classifies_content [OF users_differ(7) users_differ(8) c, of castObjectId after_two
      "''000000000000000000000003''" 30 31] cast_users(1)
  obtain m st1 where
    r: "createMessage castObjectId after_two ''000000000000000000000003'' 30 31 alice bob
          (Some ''look'') (Some \<lparr>filename = ''q.png''\<rparr>) = (Success m 201, st1)"
    and t: "message m = \<lparr>msg_text = Some ''look'', msg_image = Some (''/uploads/'' @ ''q.png''),
                          msg_type = Mixed\<rparr>"
    by (auto simp add: falsy_def)
  have "fst (createMessage castObjectId after_two ''000000000000000000000003'' 30 31 alice bob
          (Some ''look'') (Some \<lparr>filename = ''q.png''\<rparr>))
     = Success \<lparr>msgId = ''000000000000000000000003'',
                message = \<lparr>msg_text = Some ''look'', msg_image = Some ''/uploads/q.png'',
                           msg_type = Mixed\<rparr>,
                users = [alice, bob], sender = alice,
                time = 30, createdAt = 31, updatedAt = 31\<rparr> 201"
    by (simp add: createMessage_def Message_create_def falsy_def Let_def cast_users users_differ)
  with users_differ(7) users_differ(8) c cast_users(1) show ?thesis by (intro conjI)
qed

text \<open>
  C7. A send whose text is absent or empty and that carries no image file fails with
  status 400 (a validation error), in the service and in the handler, and returns the
  state it was given: nothing is stored.
\<close>

theorem send_without_content_fails:
  assumes "falsy txt" and "imageFile = None"
  shows "(\<exists>e. createMessage objectId st new_id built saved senderId to_id txt imageFile =
                (Failure e 400, st)) \<and>
         (\<exists>e. addMessage objectId st new_id built saved senderId to_id txt imageFile =
                (Failure e 400, st))"
  using assms by (simp add: createMessage_def addMessage_def)

theorem send_without_content_fails_witness:
  "falsy (Some []) \<and> (None :: upload option) = None \<and>
   createMessage castObjectId no_messages ''000000000000000000000001'' 10 11 alice bob (Some []) None
     = (Failure ''Message text or image is required'' 400, no_messages)"
proof -
  have f: "falsy (Some [])" by (simp add: falsy_def)
  have n: "(None :: upload option) = None" by simp
  from send_without_content_fails [OF f n, of castObjectId no_messages
      "''000000000000000000000001''" 10 11 alice bob]
  obtain e where "createMessage castObjectId no_messages ''000000000000000000000001'' 10 11
      alice bob (Some []) None = (Failure e 400, no_messages)"
    by (elim conjE exE)
  moreover have "fst (createMessage castObjectId no_messages ''000000000000000000000001'' 10 11
      alice bob (Some []) None) = Failure ''Message text or image is required'' 400"
    by (simp add: createMessage_def falsy_def users_differ)
  ultimately have "createMessage castObjectId no_messages ''000000000000000000000001'' 10 11
      alice bob (Some []) None = (Failure ''Message text or image is required'' 400, no_messages)"
    by simp
  with f n show ?thesis by (intro conjI)
qed

text \<open>
  C10, as amended. The document a successful send stores has the participants
  \<^verbatim>\<open>[senderId, to]\<close>, as the strings given, and as sender the ObjectId cast from
  \<^verbatim>\<open>senderId\<close>; it is appended to the collection and the handler stores the same
  document. The sender's text is the participant at position 0 when \<^verbatim>\<open>senderId\<close>
  is already the canonical text, and in every stored document the sender stays the cast
  of the first of two participants.
\<close>

theorem created_record_is_positional:
  assumes "createMessage objectId st new_id built saved senderId to_id txt imageFile =
             (Success m c, st')"
  shows "users m = [senderId, to_id] \<and> objectId senderId = Some (sender m) \<and>
         collection st' = collection st @ [m] \<and>
         (\<exists>v. addMessage objectId st new_id built saved senderId to_id txt imageFile =
                (Success v 200, st') \<and> v_sender v = sender m) \<and>
         (objectId senderId = Some senderId \<longrightarrow> sender m = senderId) \<and>
         ((\<forall>d \<in> set (collection st). \<exists>s r. users d = [s, r] \<and> objectId s = Some (sender d)) \<longrightarrow>
          (\<forall>d \<in> set (collection st'). \<exists>s r. users d = [s, r] \<and> objectId s = Some (sender d)))"
proof -
  from assms have ids: "senderId \<noteq> []" "to_id \<noteq> []" and cnt: "\<not> (falsy txt \<and> imageFile = None)"
    by (auto simp add: createMessage_def split: if_splits)
  from assms ids cnt obtain oid where oid: "objectId senderId = Some oid"
    by (cases "objectId senderId")
       (auto simp add: createMessage_def Message_create_def Let_def)
  from assms ids cnt oid have m: "users m = [senderId, to_id]" "sender m = oid"
    and st': "st' = st\<lparr>collection := collection st @ [m]\<rparr>"
    by (auto simp add: createMessage_def Message_create_def Let_def)
  have h: "\<exists>v. addMessage objectId st new_id built saved senderId to_id txt imageFile =
                (Success v 200, st') \<and> v_sender v = sender m"
    using assms ids cnt oid
    by (auto simp add: createMessage_def addMessage_def Message_create_def Let_def)
  have inv: "(\<forall>d \<in> set (collection st). \<exists>s r. users d = [s, r] \<and> objectId s = Some (sender d)) \<longrightarrow>
          (\<forall>d \<in> set (collection st'). \<exists>s r. users d = [s, r] \<and> objectId s = Some (sender d))"
    using m oid unfolding st' by auto
  from m oid st' h inv show ?thesis by simp
qed

theorem created_record_is_positional_witness:
  "createMessage castObjectId no_messages ''000000000000000000000001'' 10 11 alice bob
      (Some ''hi'') None = (Success doc1 201, after_one) \<and>
   users doc1 = [alice, bob] \<and> castObjectId alice = Some (sender doc1) \<and>
   collection after_one = collection no_messages @ [doc1]"
proof -
  have h: "createMessage castObjectId no_messages ''000000000000000000000001'' 10 11 alice bob
      (Some ''hi'') None = (Success doc1 201, after_one)"
    unfolding after_one_eq
    by (simp add: no_messages_def createMessage_def Message_create_def falsy_def
        Let_def cast_users users_differ doc1_def)
  from created_record_is_positional [OF h]
  have "users doc1 = [alice, bob]" "castObjectId alice = Some (sender doc1)"
    "collection after_one = collection no_messages @ [doc1]"
    by simp_all
  with h show ?thesis by (intro conjI)
qed

text \<open>
  C10 as stated fails: a sender id written in upper-case hexadecimal is accepted, is
  stored as given in \<^verbatim>\<open>users\<close> and in lower case as \<^verbatim>\<open>sender\<close>.
\<close>

theorem sender_differs_from_slot_counterexample:
  "fst (createMessage castObjectId no_messages ''000000000000000000000001'' 10 11
          ''AAAAAAAAAAAAAAAAAAAAAAAA'' bob (Some ''hi'') None)
     = Success \<lparr>msgId = ''000000000000000000000001'',
                message = \<lparr>msg_text = Some ''hi'', msg_image = None, msg_type = Text\<rparr>,
                users = [''AAAAAAAAAAAAAAAAAAAAAAAA'', bob],
                sender = ''aaaaaaaaaaaaaaaaaaaaaaaa'',
                time = 10, createdAt = 11, updatedAt = 11\<rparr> 201 \<and>
   ''aaaaaaaaaaaaaaaaaaaaaaaa'' \<noteq> ''AAAAAAAAAAAAAAAAAAAAAAAA''"
  by (simp add: createMessage_def Message_create_def falsy_def Let_def users_differ
      castObjectId_def hex_digit_def lower_hex_def no_messages_def)

section \<open>History\<close>

text \<open>
  C5. For two non-empty user ids, on a collection whose documents have
  \<^verbatim>\<open>updatedAt\<close> equal to \<^verbatim>\<open>createdAt\<close> (they are written together and never
  updated), \<^verbatim>\<open>getMessages\<close> succeeds, in the service and in the handler, with the
  projections of exactly the stored messages that have both users among their
  participants, each as often as it is stored, in non-decreasing order of
  \<^verbatim>\<open>createdAt\<close>.
\<close>

theorem history_complete_and_ordered:
  assumes "a \<noteq> []" and "b \<noteq> []"
    and "\<forall>m \<in> set (collection st). updatedAt m = createdAt m"
  shows "\<exists>ms recs.
           getMessages st a b = (Success (recs, length ms) 200, st) \<and>
           getMessages_handler st a b = (Success (recs, length ms) 200, st) \<and>
           mset ms = mset (filter (\<lambda>m. a \<in> set (users m) \<and> b \<in> set (users m)) (collection st)) \<and>
           sorted (map createdAt ms) \<and>
           list_all2 (\<lambda>r m. p_id r = msgId m \<and> p_message r = message m \<and> p_time r = time m)
             recs ms"
proof -
  let ?ms = "Message_find_sorted st a b"
  let ?recs = "map (\<lambda>msg. \<lparr>fromSelf = (sender msg = a), p_message = message msg,
                           p_time = time msg, p_id = msgId msg\<rparr>) ?ms"
  have 1: "getMessages st a b = (Success (?recs, length ?ms) 200, st)"
    using assms(1,2) by (simp add: getMessages_def Let_def)
  have 2: "getMessages_handler st a b = (Success (?recs, length ?ms) 200, st)"
    using assms(2) by (simp add: getMessages_handler_def Let_def)
  have stamps: "\<forall>m \<in> set ?ms. updatedAt m = createdAt m"
    using assms(3) find_sorted_props(3) [of st a b] by blast
  have eq: "map createdAt ?ms = map updatedAt ?ms"
    using stamps by (intro map_cong refl) simp
  have 3: "sorted (map createdAt ?ms)"
    unfolding eq by (rule find_sorted_props(2))
  have 4: "list_all2 (\<lambda>r m. p_id r = msgId m \<and> p_message r = message m \<and> p_time r = time m)
             ?recs ?ms"
    by (simp add: list_all2_map1 list_all2_same)
  from 1 2 find_sorted_props(1) [of st a b] 3 4 show ?thesis
    by (intro exI [of _ ?ms] exI [of _ ?recs] conjI)
qed

theorem history_complete_and_ordered_witness:
  "alice \<noteq> [] \<and> bob \<noteq> [] \<and>
   getMessages scenario alice bob =
     (Success ([\<lparr>fromSelf = True,
                  p_message = \<lparr>msg_text = Some ''hi'', msg_image = None, msg_type = Text\<rparr>,
                  p_time = 10, p_id = ''000000000000000000000001''\<rparr>,
                \<lparr>fromSelf = False,
                  p_message = \<lparr>msg_text = None, msg_image = Some ''/uploads/p.png'', msg_type = Image\<rparr>,
                  p_time = 20, p_id = ''000000000000000000000002''\<rparr>,
                \<lparr>fromSelf = True,
                  p_message = \<lparr>msg_text = Some ''look'', msg_image = Some ''/uploads/q.png'',
                               msg_type = Mixed\<rparr>,
                  p_time = 30, p_id = ''000000000000000000000003''\<rparr>], 3) 200, scenario) \<and>
   filter (\<lambda>m. alice \<in> set (users m) \<and> bob \<in> set (users m)) (collection scenario)
     = [doc1, doc2, doc3] \<and>
   map createdAt [doc1, doc2, doc3] = [11, 21, 31] \<and>
   (\<exists>(ms :: message_doc list) recs.
      getMessages scenario alice bob = (Success (recs, length ms) 200, scenario) \<and>
      sorted (map createdAt ms))"
proof -
  have inv: "\<forall>m \<in> set (collection scenario). updatedAt m = createdAt m"
    by (simp add: scenario_eq doc_fields)
  have 1: "filter (\<lambda>m. alice \<in> set (users m) \<and> bob \<in> set (users m)) (collection scenario)
     = [doc1, doc2, doc3]"
    by (simp add: scenario_eq doc_fields users_differ)
  have 2: "map createdAt [doc1, doc2, doc3] = [11, 21, 31]"
    by (simp add: doc_fields)
  from history_complete_and_ordered [OF users_differ(7) users_differ(8) inv]
  have 3: "\<exists>(ms :: message_doc list) recs.
      getMessages scenario alice bob = (Success (recs, length ms) 200, scenario) \<and>
      sorted (map createdAt ms)"
    by (elim exE conjE) blast
  from users_differ(7) users_differ(8) scenario_history 1 2 3 show ?thesis by (intro conjI)
qed

text \<open>
  C6. Each record a history returns comes from one found message: its \<^verbatim>\<open>fromSelf\<close>
  is true exactly when that message's sender is the viewer, and its other fields are the
  message's content, its \<^verbatim>\<open>time\<close> and its id. A record has these four fields and no
  other. The handler returns the same records.
\<close>

theorem history_projection:
  assumes "getMessages st viewerId peerId = (Success (recs, n) c, st')"
  shows "list_all2 (\<lambda>r m. (fromSelf r \<longleftrightarrow> sender m = viewerId) \<and> p_message r = message m \<and>
                          p_time r = time m \<and> p_id r = msgId m)
           recs (Message_find_sorted st viewerId peerId) \<and>
         set (Message_find_sorted st viewerId peerId) \<subseteq> set (collection st) \<and>
         getMessages_handler st viewerId peerId = (Success (recs, n) c, st')"
proof -
  from assms have ids: "viewerId \<noteq> []" "peerId \<noteq> []"
    by (auto simp add: getMessages_def split: if_splits)
  from assms ids have recs: "recs = map (\<lambda>msg. \<lparr>fromSelf = (sender msg = viewerId),
        p_message = message msg, p_time = time msg, p_id = msgId msg\<rparr>)
        (Message_find_sorted st viewerId peerId)"
    and rest: "n = length recs" "c = 200" "st' = st"
    by (auto simp add: getMessages_def Let_def)
  have 1: "list_all2 (\<lambda>r m. (fromSelf r \<longleftrightarrow> sender m = viewerId) \<and> p_message r = message m \<and>
                          p_time r = time m \<and> p_id r = msgId m)
           recs (Message_find_sorted st viewerId peerId)"
    unfolding recs by (simp add: list_all2_map1 list_all2_same)
  have 2: "getMessages_handler st viewerId peerId = (Success (recs, n) c, st')"
    using ids(2) unfolding recs rest by (simp add: getMessages_handler_def Let_def)
  from 1 find_sorted_props(3) [of st viewerId peerId] 2 show ?thesis by (intro conjI)
qed

theorem history_projection_witness:
  "getMessages scenario alice bob =
     (Success ([\<lparr>fromSelf = True,
                  p_message = \<lparr>msg_text = Some ''hi'', msg_image = None, msg_type = Text\<rparr>,
                  p_time = 10, p_id = ''000000000000000000000001''\<rparr>,
                \<lparr>fromSelf = False,
                  p_message = \<lparr>msg_text = None, msg_image = Some ''/uploads/p.png'', msg_type = Image\<rparr>,
                  p_time = 20, p_id = ''000000000000000000000002''\<rparr>,
                \<lparr>fromSelf = True,
                  p_message = \<lparr>msg_text = Some ''look'', msg_image = Some ''/uploads/q.png'',
                               msg_type = Mixed\<rparr>,
                  p_time = 30, p_id = ''000000000000000000000003''\<rparr>], 3) 200, scenario) \<and>
   map sender (Message_find_sorted scenario alice bob) = [alice, bob, alice] \<and>
   set (Message_find_sorted scenario alice bob) \<subseteq> set (collection scenario) \<and>
   getMessages_handler scenario alice bob = getMessages scenario alice bob"
proof -
  have s: "map sender (Message_find_sorted scenario alice bob) = [alice, bob, alice]"
    by (simp add: scenario_found doc_fields)
  from history_projection [OF scenario_history]
  have "set (Message_find_sorted scenario alice bob) \<subseteq> set (collection scenario)"
    and "getMessages_handler scenario alice bob = getMessages scenario alice bob"
    by (simp_all add: scenario_history)
  with scenario_history s show ?thesis by (intro conjI)
qed

text \<open>
  C9. Reading a history returns the state it was given, and reading it again from that
  state gives the same answer, in the service and in the handler.
\<close>

theorem history_is_pure_read:
  "snd (getMessages st a b) = st \<and>
   getMessages (snd (getMessages st a b)) a b = getMessages st a b \<and>
   snd (getMessages_handler st a b) = st \<and>
   getMessages_handler (snd (getMessages_handler st a b)) a b = getMessages_handler st a b"
  by (simp add: getMessages_def getMessages_handler_def Let_def)

section \<open>Removal\<close>

text \<open>
  C8, as amended. In a collection with unique ids: the service answers 400 and changes
  nothing when the message id or the user id is empty. When the message id is not the
  text of an ObjectId the lookup throws and nothing changes: the handler answers 400
  (\<^verbatim>\<open>Invalid ID format\<close>) and the service 500. When it is one, the service with
  two non-empty ids does what the handler does, and the handler answers 404 and changes
  nothing when no message has the id; answers 403 and changes nothing, the collection
  and the files alike, when the text of the message's sender is not the requester's id;
  and otherwise succeeds whether or not the image file is on disk, leaves no such file
  and no such document, and no later history shows the message.
\<close>

theorem remove_outcomes:
  assumes "distinct (map msgId (collection st))"
  shows "(messageId = [] \<or> userId = [] \<longrightarrow>
            deleteMessage objectId root st messageId userId =
              (Failure ''Message ID and user ID are required'' 400, st)) \<and>
         (objectId messageId = None \<longrightarrow>
            deleteMessage_handler objectId root st userId messageId =
              (Failure ''Invalid ID format'' 400, st) \<and>
            (messageId \<noteq> [] \<and> userId \<noteq> [] \<longrightarrow>
               deleteMessage objectId root st messageId userId =
                 (Failure ''Failed to delete message'' 500, st))) \<and>
         (\<forall>oid. objectId messageId = Some oid \<longrightarrow>
            (messageId \<noteq> [] \<and> userId \<noteq> [] \<longrightarrow>
               deleteMessage objectId root st messageId userId =
                 deleteMessage_handler objectId root st userId messageId) \<and>
            ((\<forall>m \<in> set (collection st). msgId m \<noteq> oid) \<longrightarrow>
               deleteMessage_handler objectId root st userId messageId =
                 (Failure ''Message not found'' 404, st)) \<and>
            (\<forall>msg \<in> set (collection st). msgId msg = oid \<and> sender msg \<noteq> userId \<longrightarrow>
               deleteMessage_handler objectId root st userId messageId =
                 (Failure ''You can only delete your own messages'' 403, st)) \<and>
            (\<forall>msg \<in> set (collection st). msgId msg = oid \<and> sender msg = userId \<longrightarrow>
               (\<exists>st'. deleteMessage_handler objectId root st userId messageId =
                        (Success ''Message deleted successfully'' 200, st') \<and>
                      collection st' = filter (\<lambda>m. msgId m \<noteq> oid) (collection st) \<and>
                      files st' = (case msg_image (message msg) of
                                     None \<Rightarrow> files st
                                   | Some img \<Rightarrow> if img = [] then files st
                                                 else files st - {imagePath root img}) \<and>
                      (\<forall>a b recs n c s2. getMessages st' a b = (Success (recs, n) c, s2) \<longrightarrow>
                         oid \<notin> p_id ` set recs))))"
proof (intro conjI impI ballI allI)
  show "deleteMessage objectId root st messageId userId =
          (Failure ''Message ID and user ID are required'' 400, st)"
    if "messageId = [] \<or> userId = []"
    using that by (simp add: deleteMessage_def)
  show "deleteMessage_handler objectId root st userId messageId =
          (Failure ''Invalid ID format'' 400, st)"
    if "objectId messageId = None"
    using delete_bad_id(1) [where objectId = objectId and messageId = messageId] that by simp
  show "deleteMessage objectId root st messageId userId =
          (Failure ''Failed to delete message'' 500, st)"
    if "objectId messageId = None" "messageId \<noteq> [] \<and> userId \<noteq> []"
    using delete_bad_id(2) [where objectId = objectId and messageId = messageId] that by simp
  show "deleteMessage objectId root st messageId userId =
          deleteMessage_handler objectId root st userId messageId"
    if "objectId messageId = Some oid" "messageId \<noteq> [] \<and> userId \<noteq> []" for oid
    using service_delete_is_handler [where objectId = objectId and messageId = messageId
        and userId = userId and oid = oid] that by simp
  show "deleteMessage_handler objectId root st userId messageId =
          (Failure ''Message not found'' 404, st)"
    if "objectId messageId = Some oid" "\<forall>m \<in> set (collection st). msgId m \<noteq> oid" for oid
    using delete_absent [where objectId = objectId and messageId = messageId and oid = oid
        and st = st] that by simp
  show "deleteMessage_handler objectId root st userId messageId =
          (Failure ''You can only delete your own messages'' 403, st)"
    if "objectId messageId = Some oid" "msg \<in> set (collection st)"
      "msgId msg = oid \<and> sender msg \<noteq> userId" for oid msg
    using delete_foreign [where objectId = objectId and messageId = messageId and msg = msg
        and st = st and userId = userId] assms that by simp
  show "\<exists>st'. deleteMessage_handler objectId root st userId messageId =
                        (Success ''Message deleted successfully'' 200, st') \<and>
                      collection st' = filter (\<lambda>m. msgId m \<noteq> oid) (collection st) \<and>
                      files st' = (case msg_image (message msg) of
                                     None \<Rightarrow> files st
                                   | Some img \<Rightarrow> if img = [] then files st
                                                 else files st - {imagePath root img}) \<and>
                      (\<forall>a b recs n c s2. getMessages st' a b = (Success (recs, n) c, s2) \<longrightarrow>
                         oid \<notin> p_id ` set recs)"
    if o: "objectId messageId = Some oid" and m: "msg \<in> set (collection st)"
      "msgId msg = oid \<and> sender msg = userId" for oid msg
  proof -
    let ?st' = "\<lparr>collection = filter (\<lambda>m. msgId m \<noteq> oid) (collection st),
                 files = (case msg_image (message msg) of
                        None \<Rightarrow> files st
                      | Some img \<Rightarrow> if img = [] then files st
                                    else files st - {imagePath root img})\<rparr>"
    have 1: "deleteMessage_handler objectId root st userId messageId =
               (Success ''Message deleted successfully'' 200, ?st')"
      using delete_own [where objectId = objectId and messageId = messageId and msg = msg
          and st = st and userId = userId and root = root] assms o m by simp
    have 2: "oid \<notin> p_id ` set recs"
      if "getMessages ?st' a b = (Success (recs, n) c, s2)" for a b recs n c s2
    proof -
      from history_ids [OF that]
      have "p_id ` set recs \<subseteq> msgId ` set (filter (\<lambda>m. msgId m \<noteq> oid) (collection st))"
        by simp
      then show ?thesis by auto
    qed
    from 1 2 show ?thesis
      by (intro exI [of _ ?st'] conjI allI impI) simp_all
  qed
qed

theorem remove_outcomes_witness:
  "distinct (map msgId (collection scenario_with_files)) \<and>
   deleteMessage castObjectId ''/srv'' scenario_with_files ''000000000000000000000003'' alice =
     (Success ''Message deleted successfully'' 200,
      \<lparr>collection = [doc1, doc2, doc4], files = {''/srv/uploads/p.png''}\<rparr>) \<and>
   deleteMessage castObjectId ''/srv'' scenario_with_files ''000000000000000000000002'' alice =
     (Failure ''You can only delete your own messages'' 403, scenario_with_files) \<and>
   deleteMessage castObjectId ''/srv'' scenario_with_files ''000000000000000000000009'' alice =
     (Failure ''Message not found'' 404, scenario_with_files) \<and>
   deleteMessage_handler castObjectId ''/srv'' scenario_with_files alice ''000000000000000000000009'' =
     (Failure ''Message not found'' 404, scenario_with_files)"
proof -
  have d: "distinct (map msgId (collection scenario_with_files))"
    unfolding scenario_ids by simp
  have absent: "\<forall>m \<in> set (collection scenario_with_files). msgId m \<noteq> ''000000000000000000000009''"
    by (simp add: scenario_with_files_eq doc_fields)
  have ne: "''000000000000000000000009'' \<noteq> [] \<and> alice \<noteq> []"
    by (simp add: users_differ)
  from remove_outcomes [OF d, where objectId = castObjectId
      and messageId = "''000000000000000000000009''" and userId = alice and root = "''/srv''"]
    absent ne cast_ids(3)
  have "deleteMessage castObjectId ''/srv'' scenario_with_files ''000000000000000000000009'' alice =
     (Failure ''Message not found'' 404, scenario_with_files)"
    and "deleteMessage_handler castObjectId ''/srv'' scenario_with_files alice
       ''000000000000000000000009'' = (Failure ''Message not found'' 404, scenario_with_files)"
    by simp_all
  with d scenario_delete_own scenario_delete_foreign show ?thesis by (intro conjI)
qed

text \<open>
  C8 as stated fails: with an empty message id, which no message has, the service
  answers 400 and not 404; with an empty user id and a message of another sender it
  answers 400 and not 403; with a message id that is not an ObjectId, which no message
  has, the service answers 500 and the handler 400, neither 404.
\<close>

theorem remove_with_empty_id_counterexample:
  "filter (\<lambda>m. msgId m = []) (collection scenario) = [] \<and>
   deleteMessage castObjectId ''/srv'' scenario [] alice =
     (Failure ''Message ID and user ID are required'' 400, scenario) \<and>
   map sender (filter (\<lambda>m. msgId m = ''000000000000000000000002'') (collection scenario)) = [bob] \<and>
   deleteMessage castObjectId ''/srv'' scenario ''000000000000000000000002'' [] =
     (Failure ''Message ID and user ID are required'' 400, scenario) \<and>
   filter (\<lambda>m. msgId m = ''m9'') (collection scenario) = [] \<and>
   deleteMessage castObjectId ''/srv'' scenario ''m9'' alice =
     (Failure ''Failed to delete message'' 500, scenario) \<and>
   deleteMessage_handler castObjectId ''/srv'' scenario alice ''m9'' =
     (Failure ''Invalid ID format'' 400, scenario)"
  by (simp add: deleteMessage_def deleteMessage_handler_def Message_findById_def errorHandler_def
      scenario_eq doc_fields cast_ids users_differ)

section \<open>Conversations\<close>

text \<open>
  C1 fails on the code. After three messages between alice and bob and one between alice
  and carol, the service and the handler both return one summary for alice, not two: its
  key is the empty array, and it counts all four messages and shows the last of them.
\<close>

theorem conversations_collapse_to_one_summary:
  "getConversations scenario alice =
     (Success ([\<lparr>conv_id = Some (BArray []), lastMessage = Some ''yo'',
                  lastMessageTime = 40, messageCount = 4\<rparr>], 1) 200, scenario) \<and>
   getConversations_handler scenario alice =
     (Success ([\<lparr>conv_id = Some (BArray []), lastMessage = Some ''yo'',
                  lastMessageTime = 40, messageCount = 4\<rparr>], 1) 200, scenario) \<and>
   length (filter (\<lambda>m. set (users m) = {alice, bob}) (collection scenario)) = 3 \<and>
   length (filter (\<lambda>m. set (users m) = {alice, carol}) (collection scenario)) = 1"
  by (simp add: getConversations_def getConversations_handler_def scenario_aggregates Let_def
      users_differ)
     (simp add: scenario_eq doc_fields users_differ doubleton_eq_iff)

text \<open>
  C2 fails on the code. The key of the \<^verbatim>\<open>$group\<close> stage is the empty array for
  every message and every viewer, whatever stands at positions 0 and 1 of the
  participants: the pipeline both entry points return has at most one summary, with that
  key.
\<close>

theorem peer_key_is_never_positional:
  "group_key userId m = Some (BArray []) \<and>
   map conv_id (Message_aggregate glyph st userId) =
     (if filter (\<lambda>m. userId \<in> set (users m)) (collection st) = [] then []
      else [Some (BArray [])]) \<and>
   getConversations st userId =
     (if userId = [] then (Failure ''User ID is required'' 400, st)
      else (Success (Message_aggregate camera st userId,
                     length (Message_aggregate camera st userId)) 200, st)) \<and>
   getConversations_handler st userId =
     (Success (Message_aggregate camera_controller st userId,
               length (Message_aggregate camera_controller st userId)) 200, st) \<and>
   users doc1 = [alice, bob] \<and> group_key alice doc1 \<noteq> Some (BString bob) \<and>
   users doc2 = [bob, alice] \<and> group_key alice doc2 \<noteq> Some (BString bob)"
proof -
  have "sort_stage (match_stage userId (collection st)) = [] \<longleftrightarrow>
        filter (\<lambda>m. userId \<in> set (users m)) (collection st) = []"
    using sort_stage_length [of "match_stage userId (collection st)"]
    by (simp add: match_stage_def del: length_0_conv add: length_0_conv [symmetric])
  then have "map conv_id (Message_aggregate glyph st userId) =
     (if filter (\<lambda>m. userId \<in> set (users m)) (collection st) = [] then []
      else [Some (BArray [])])"
    by (cases "sort_stage (match_stage userId (collection st))")
       (simp_all add: aggregate_one_group)
  then show ?thesis
    by (simp add: group_key_empty_array getConversations_def getConversations_handler_def
        Let_def doc_fields)
qed




end
